theory Spec2Isabelle
  imports Main "HOL-Library.Word"
begin

section \<open>Data model of the wifi module (modules/wifi, \<open>WiFiModule\<close>)\<close>

text \<open>
  A captured frame (\<open>gopacket.Packet\<close>) is represented by the bytes its \<open>Data()\<close>
  returns. A hardware address is the text its \<open>String()\<close> method yields, which is the
  key of the session's access-point registry.
\<close>

type_synonym packet = "8 word list"
type_synonym hwaddr = string

datatype Dot11MainType = Dot11TypeMgmt | Dot11TypeCtrl | Dot11TypeData | Dot11TypeReserved

text \<open>The fields of \<open>layers.Dot11\<close> and \<open>layers.RadioTap\<close> that the module reads.\<close>

record Dot11 =
  MainType :: Dot11MainType
  Address1 :: hwaddr
  Address2 :: hwaddr
  Address3 :: hwaddr
  ChecksumValid :: bool

record RadioTap =
  DBMAntennaSignal :: int
  ChannelFrequency :: int

text \<open>A record of the session registry (\<open>network.AccessPoint\<close>), with \<open>uint64\<close> counters.\<close>

record AccessPoint =
  Encryption :: string
  Cipher :: string
  Authentication :: string
  WPS :: "string \<rightharpoonup> string"
  Received :: "64 word"
  Sent :: "64 word"
  Channel :: int

text \<open>
  The module value. Besides the fields of the Go struct it carries the parts of the
  session the module writes to (\<open>WiFi\<close>: the registry \<open>Session.WiFi\<close>; \<open>QueueReceived\<close>:
  the byte counter of \<open>Session.Queue\<close>; \<open>handshakes\<close>: the frames appended to the
  handshake file), the counters of the two wait groups, one flag per background
  task started by \<open>Start\<close>, and in \<open>closedHandles\<close> the capture handles on which
  \<open>Close\<close> has been called, in order. \<open>pktSourceChan\<close> is \<open>None\<close> while the Go field
  is the nil channel and otherwise holds the values waiting in the channel, where a
  \<open>None\<close> element is the nil packet.
\<close>

record WiFiModule =
  Started :: bool
  handle :: "nat option"
  source :: string
  minRSSI :: int
  channel :: int
  hopPeriod :: "64 word"
  frequencies :: "int list"
  ap :: "hwaddr option"
  stickChan :: int
  skipBroken :: bool
  pktSourceChan :: "packet option list option"
  pktSourceChanClosed :: bool
  shakesFile :: string
  writes :: nat
  reads :: nat
  WiFi :: "hwaddr \<rightharpoonup> AccessPoint"
  QueueReceived :: "64 word"
  handshakes :: "packet list"
  hopperTask :: bool
  prunerTask :: bool
  captureTask :: bool
  closedHandles :: "nat list"

definition Running :: "WiFiModule \<Rightarrow> bool" where
  "Running m = Started m"

section \<open>Frame classification glue: \<open>updateInfo\<close> and \<open>updateStats\<close>\<close>

text \<open>
  The decoders of package \<open>packets\<close> and the four \<open>discover*\<close> methods of the module
  live in other files; they are parameters of the model. A \<open>discover*\<close> method may
  change the module and the session in any way.
\<close>

record classifier =
  Dot11Parse :: "packet \<Rightarrow> (RadioTap \<times> Dot11) option"
  Dot11ParseEncryption :: "packet \<Rightarrow> Dot11 \<Rightarrow> (string \<times> string \<times> string) option"
  Dot11ParseWPS :: "packet \<Rightarrow> Dot11 \<Rightarrow> (hwaddr \<times> (string \<rightharpoonup> string)) option"
  discoverProbes :: "RadioTap \<Rightarrow> Dot11 \<Rightarrow> packet \<Rightarrow> WiFiModule \<Rightarrow> WiFiModule"
  discoverAccessPoints :: "RadioTap \<Rightarrow> Dot11 \<Rightarrow> packet \<Rightarrow> WiFiModule \<Rightarrow> WiFiModule"
  discoverClients :: "RadioTap \<Rightarrow> Dot11 \<Rightarrow> packet \<Rightarrow> WiFiModule \<Rightarrow> WiFiModule"
  discoverHandshakes :: "RadioTap \<Rightarrow> Dot11 \<Rightarrow> packet \<Rightarrow> WiFiModule \<Rightarrow> WiFiModule"

definition updateInfo :: "classifier \<Rightarrow> Dot11 \<Rightarrow> packet \<Rightarrow> WiFiModule \<Rightarrow> WiFiModule" where
  "updateInfo c dot11 p m =
    (let m1 = (case Dot11ParseEncryption c p dot11 of
                 None \<Rightarrow> m
               | Some (enc, cipher, auth) \<Rightarrow>
                   (case WiFi m (Address3 dot11) of
                      None \<Rightarrow> m
                    | Some station \<Rightarrow>
                        m\<lparr>WiFi := (WiFi m)(Address3 dot11 \<mapsto>
                             station\<lparr>Encryption := enc, Cipher := cipher,
                                     Authentication := auth\<rparr>)\<rparr>))
     in (case Dot11ParseWPS c p dot11 of
           None \<Rightarrow> m1
         | Some (bssid, info) \<Rightarrow>
             (case WiFi m1 bssid of
                None \<Rightarrow> m1
              | Some station \<Rightarrow>
                  m1\<lparr>WiFi := (WiFi m1)(bssid \<mapsto> station\<lparr>WPS := WPS station ++ info\<rparr>)\<rparr>)))"

definition updateStats :: "Dot11 \<Rightarrow> packet \<Rightarrow> WiFiModule \<Rightarrow> WiFiModule" where
  "updateStats dot11 p m =
    (if MainType dot11 = Dot11TypeData then
       (let bytes = (of_nat (length p) :: 64 word);
            dst = Address1 dot11;
            m1 = (case WiFi m dst of
                    None \<Rightarrow> m
                  | Some station \<Rightarrow>
                      m\<lparr>WiFi := (WiFi m)(dst \<mapsto> station\<lparr>Received := Received station + bytes\<rparr>)\<rparr>);
            src = Address2 dot11
        in (case WiFi m1 src of
              None \<Rightarrow> m1
            | Some station \<Rightarrow>
                m1\<lparr>WiFi := (WiFi m1)(src \<mapsto> station\<lparr>Sent := Sent station + bytes\<rparr>)\<rparr>))
     else m)"

section \<open>The capture loop of \<open>Start\<close>\<close>

text \<open>
  Modelled from the spec: \<open>Queue.TrackPacket\<close> (package \<open>packets\<close>) is not among the
  sources; the specification says that every accepted frame increments a global
  traffic counter by its byte count.
\<close>

definition TrackPacket :: "64 word \<Rightarrow> WiFiModule \<Rightarrow> WiFiModule" where
  "TrackPacket n m = m\<lparr>QueueReceived := QueueReceived m + n\<rparr>"

text \<open>The six calls made for a frame that passed parsing and the checksum test.\<close>

definition dispatch :: "classifier \<Rightarrow> RadioTap \<Rightarrow> Dot11 \<Rightarrow> packet \<Rightarrow> WiFiModule \<Rightarrow> WiFiModule" where
  "dispatch c radiotap dot11 p m =
     updateStats dot11 p
       (updateInfo c dot11 p
          (discoverHandshakes c radiotap dot11 p
             (discoverClients c radiotap dot11 p
                (discoverAccessPoints c radiotap dot11 p
                   (discoverProbes c radiotap dot11 p m)))))"

datatype loop_ctl = Continue | Break

text \<open>One iteration of \<open>for packet := range mod.pktSourceChan\<close> on a received value.\<close>

definition on_packet :: "classifier \<Rightarrow> packet option \<Rightarrow> WiFiModule \<Rightarrow> loop_ctl \<times> WiFiModule" where
  "on_packet c pkt m =
    (if \<not> Running m then (Break, m)
     else case pkt of
       None \<Rightarrow> (Continue, m)
     | Some p \<Rightarrow>
         (let m1 = TrackPacket (of_nat (length p)) m in
          case Dot11Parse c p of
            None \<Rightarrow> (Continue, m1)
          | Some (radiotap, dot11) \<Rightarrow>
              if skipBroken m1 \<and> \<not> ChecksumValid dot11 then (Continue, m1)
              else (Continue, dispatch c radiotap dot11 p m1)))"

text \<open>
  The whole \<open>range\<close> loop over the values the channel delivers before it is closed.
  The result is what is left in the channel when the loop exits and the module then.
\<close>

fun capture_loop :: "classifier \<Rightarrow> packet option list \<Rightarrow> WiFiModule
    \<Rightarrow> packet option list \<times> WiFiModule" where
  "capture_loop c [] m = ([], m)"
| "capture_loop c (pkt # rest) m =
     (case on_packet c pkt m of
        (Break, m') \<Rightarrow> (rest, m')
      | (Continue, m') \<Rightarrow> capture_loop c rest m')"

section \<open>\<open>Configure\<close> and \<open>Start\<close>\<close>

text \<open>
  An error is kept with the data its message is built from: \<open>Failure\<close> is an error
  handed through from a callee unchanged, the other constructors are the messages
  formatted by \<open>fmt.Errorf\<close> in this file.
\<close>

datatype error =
    Failure string
  | ErrOpenFile string string
  | ErrOpenInterface string string
  | ErrMonitorMode string string
  | ErrSnapLen string
  | ErrSetTimeout string
  | ErrActivate string
  | ErrFrequencies string string
  | ErrInitChannel string string
  | ErrInvalidChannel int
  | ErrNoStation string

text \<open>The calls \<open>Configure\<close> makes on the capture library and the operating system, in order.\<close>

datatype call =
    CallNewInactiveHandle nat
  | CallSetRFMon nat
  | CallSetSnapLen nat
  | CallSetTimeout nat
  | CallActivate nat
  | CallActivateInterface
  | CallCleanUp nat
  | CallOpenOffline
  | CallGetSupportedFrequencies
  | CallSetInterfaceChannel int

text \<open>
  What the session and the operating system answer during one call. A Go function
  returning a value and an error is a pair, since the source assigns the value also
  when the error is set. The calls on an inactive handle are indexed by the number
  \<open>retry\<close> of the loop iteration that created the handle.
\<close>

record platform =
  StringParam :: "string \<Rightarrow> string option \<times> string"
  IntParam :: "string \<Rightarrow> string option \<times> int"
  BoolParam :: "string \<Rightarrow> string option \<times> bool"
  Expand :: "string \<Rightarrow> string \<times> string option"
  InterfaceName :: string
  OpenOffline :: "string \<Rightarrow> nat option \<times> string option"
  NewInactiveHandle :: "nat \<Rightarrow> string option"
  SetRFMon :: "nat \<Rightarrow> string option"
  SetSnapLen :: "nat \<Rightarrow> string option"
  SetTimeout :: "nat \<Rightarrow> string option"
  Activate :: "nat \<Rightarrow> nat option \<times> string option"
  ActivateInterface :: "string option"
  GetSupportedFrequencies :: "int list \<times> string option"
  SetInterfaceChannel :: "int \<Rightarrow> string option"

definition ErrIfaceNotUp :: string where
  "ErrIfaceNotUp = ''Interface Not Up''"

type_synonym outcome = "error option \<times> WiFiModule \<times> call list"

text \<open>
  The loop \<open>for retry := 0; ; retry++\<close> of the live branch. It runs a second time only
  through the \<open>continue\<close>, which needs \<open>retry == 0\<close>; that is the termination argument.
\<close>

function activate_live :: "platform \<Rightarrow> nat \<Rightarrow> WiFiModule \<Rightarrow> call list \<Rightarrow> outcome" where
  "activate_live pf retry m log =
    (case NewInactiveHandle pf retry of
       Some e \<Rightarrow> (Some (ErrOpenInterface (InterfaceName pf) e), m, log @ [CallNewInactiveHandle retry])
     | None \<Rightarrow>
    (case SetRFMon pf retry of
       Some e \<Rightarrow> (Some (ErrMonitorMode (InterfaceName pf) e), m,
                  log @ [CallNewInactiveHandle retry, CallSetRFMon retry])
     | None \<Rightarrow>
    (case SetSnapLen pf retry of
       Some e \<Rightarrow> (Some (ErrSnapLen e), m,
                  log @ [CallNewInactiveHandle retry, CallSetRFMon retry, CallSetSnapLen retry])
     | None \<Rightarrow>
    (case SetTimeout pf retry of
       Some e \<Rightarrow> (Some (ErrSetTimeout e), m,
                  log @ [CallNewInactiveHandle retry, CallSetRFMon retry, CallSetSnapLen retry,
                         CallSetTimeout retry])
     | None \<Rightarrow>
    (let log1 = log @ [CallNewInactiveHandle retry, CallSetRFMon retry, CallSetSnapLen retry,
                       CallSetTimeout retry, CallActivate retry];
         m1 = m\<lparr>handle := fst (Activate pf retry)\<rparr>
     in case snd (Activate pf retry) of
          None \<Rightarrow> (None, m1, log1)
        | Some e \<Rightarrow>
            if retry = 0 \<and> e = ErrIfaceNotUp then
              (case ActivateInterface pf of
                 Some e' \<Rightarrow> (Some (Failure e'), m1, log1 @ [CallActivateInterface])
               | None \<Rightarrow> activate_live pf (retry + 1) m1 (log1 @ [CallActivateInterface]))
            else (Some (ErrActivate e), m1, log1))))))"
  by pat_completeness auto
termination
  by (relation "measure (\<lambda>(pf, retry, m, log). if retry = 0 then 1 else 0)") auto

declare activate_live.simps [simp del]

text \<open>
  The calls of one loop iteration that reaches \<open>Activate\<close>, and the condition that the
  four calls before \<open>Activate\<close> succeed in iteration \<open>i\<close>.
\<close>

definition attempt_calls :: "nat \<Rightarrow> call list" where
  "attempt_calls i = [CallNewInactiveHandle i, CallSetRFMon i, CallSetSnapLen i,
                      CallSetTimeout i, CallActivate i]"

definition inactive_ready :: "platform \<Rightarrow> nat \<Rightarrow> bool" where
  "inactive_ready pf i = (NewInactiveHandle pf i = None \<and> SetRFMon pf i = None
     \<and> SetSnapLen pf i = None \<and> SetTimeout pf i = None)"

text \<open>
  Every \<open>defer ihandle.CleanUp()\<close> registered in the loop runs when \<open>Configure\<close>
  returns, the last registered first.
\<close>

definition deferred :: "platform \<Rightarrow> call list \<Rightarrow> call list" where
  "deferred pf log =
     concat (map (\<lambda>c. case c of
                CallNewInactiveHandle i \<Rightarrow> (if NewInactiveHandle pf i = None then [CallCleanUp i] else [])
              | _ \<Rightarrow> []) (rev log))"

text \<open>
  \<open>Configure\<close> in three parts: the parameters read first, the capture handle (replay
  file or live interface), and the settings read after the handle is open.
\<close>

definition configure_params :: "platform \<Rightarrow> WiFiModule \<Rightarrow> outcome" where
  "configure_params pf m =
    (let m1 = m\<lparr>source := snd (StringParam pf ''wifi.source.file'')\<rparr> in
     case fst (StringParam pf ''wifi.source.file'') of
       Some e \<Rightarrow> (Some (Failure e), m1, [])
     | None \<Rightarrow>
    (let m2 = m1\<lparr>shakesFile := snd (StringParam pf ''wifi.handshakes.file'')\<rparr> in
     case fst (StringParam pf ''wifi.handshakes.file'') of
       Some e \<Rightarrow> (Some (Failure e), m2, [])
     | None \<Rightarrow>
    (let m3 = (if shakesFile m2 \<noteq> '''' then m2\<lparr>shakesFile := fst (Expand pf (shakesFile m2))\<rparr> else m2)
     in case (if shakesFile m2 \<noteq> '''' then snd (Expand pf (shakesFile m2)) else None) of
       Some e \<Rightarrow> (Some (Failure e), m3, [])
     | None \<Rightarrow>
    (let m4 = m3\<lparr>minRSSI := snd (IntParam pf ''wifi.rssi.min'')\<rparr> in
     case fst (IntParam pf ''wifi.rssi.min'') of
       Some e \<Rightarrow> (Some (Failure e), m4, [])
     | None \<Rightarrow> (None, m4, [])))))"

definition configure_handle :: "platform \<Rightarrow> WiFiModule \<Rightarrow> outcome" where
  "configure_handle pf m =
    (if source m \<noteq> '''' then
       (let m1 = m\<lparr>handle := fst (OpenOffline pf (source m))\<rparr> in
        case snd (OpenOffline pf (source m)) of
          Some e \<Rightarrow> (Some (ErrOpenFile (source m) e), m1, [CallOpenOffline])
        | None \<Rightarrow> (None, m1, [CallOpenOffline]))
     else activate_live pf 0 m [])"

definition configure_hopping :: "platform \<Rightarrow> WiFiModule \<Rightarrow> call list \<Rightarrow> outcome" where
  "configure_hopping pf m log =
    (let m1 = m\<lparr>skipBroken := snd (BoolParam pf ''wifi.skip-broken'')\<rparr> in
     case fst (BoolParam pf ''wifi.skip-broken'') of
       Some e \<Rightarrow> (Some (Failure e), m1, log)
     | None \<Rightarrow>
    (case fst (IntParam pf ''wifi.hop.period'') of
       Some e \<Rightarrow> (Some (Failure e), m1, log)
     | None \<Rightarrow>
    (let m2 = m1\<lparr>hopPeriod := word_of_int (snd (IntParam pf ''wifi.hop.period'')) * 1000000\<rparr> in
     if source m2 = '''' \<and> length (frequencies m2) = 0 then
       (let m3 = m2\<lparr>frequencies := fst (GetSupportedFrequencies pf)\<rparr>;
            log1 = log @ [CallGetSupportedFrequencies]
        in case snd (GetSupportedFrequencies pf) of
             Some e \<Rightarrow> (Some (ErrFrequencies (InterfaceName pf) e), m3, log1)
           | None \<Rightarrow>
               (case SetInterfaceChannel pf 1 of
                  Some e \<Rightarrow> (Some (ErrInitChannel (InterfaceName pf) e), m3,
                             log1 @ [CallSetInterfaceChannel 1])
                | None \<Rightarrow> (None, m3, log1 @ [CallSetInterfaceChannel 1])))
     else (None, m2, log))))"

definition Configure :: "platform \<Rightarrow> WiFiModule \<Rightarrow> outcome" where
  "Configure pf m =
    (case configure_params pf m of
       (Some e, m1, log1) \<Rightarrow> (Some e, m1, log1)
     | (None, m1, log1) \<Rightarrow>
    (case configure_handle pf m1 of
       (Some e, m2, log2) \<Rightarrow> (Some e, m2, log2 @ deferred pf log2)
     | (None, m2, log2) \<Rightarrow>
    (case configure_hopping pf m2 log2 of
       (r, m3, log3) \<Rightarrow> (r, m3, log3 @ deferred pf log3))))"

text \<open>
  The worker passed to \<open>SetRunning\<close>: \<open>worker_launch\<close> is its part before the loop,
  \<open>worker_finish\<close> its part after it (with the deferred \<open>reads.Done()\<close>), and
  \<open>worker\<close> the whole on the values the packet channel delivers. The task flags
  record which background tasks have been started.
\<close>

definition worker_launch :: "WiFiModule \<Rightarrow> WiFiModule" where
  "worker_launch m =
     m\<lparr>hopperTask := hopperTask m \<or> (channel m = 0 \<and> source m = ''''),
       prunerTask := True,
       reads := reads m + 1,
       pktSourceChan := Some [],
       captureTask := True\<rparr>"

definition worker_finish :: "WiFiModule \<Rightarrow> WiFiModule" where
  "worker_finish m = m\<lparr>pktSourceChanClosed := True, reads := reads m - 1, captureTask := False\<rparr>"

definition worker :: "classifier \<Rightarrow> packet option list \<Rightarrow> WiFiModule \<Rightarrow> WiFiModule" where
  "worker c delivered m = worker_finish (snd (capture_loop c delivered (worker_launch m)))"

text \<open>
  Modelled from the spec: \<open>SetRunning\<close> belongs to the session module, which is not
  among the sources. By the specification starting sets the shared running flag and
  runs the capture loop as a task of its own, and stopping clears the flag and carries
  out the shutdown steps before \<open>Stop\<close> returns. \<open>SetRunning_start\<close> takes the worker's
  statements before the loop at the moment of the launch.
\<close>

definition SetRunning_start :: "WiFiModule \<Rightarrow> WiFiModule" where
  "SetRunning_start m = worker_launch (m\<lparr>Started := True\<rparr>)"

definition Start :: "platform \<Rightarrow> WiFiModule \<Rightarrow> outcome" where
  "Start pf m =
    (case Configure pf m of
       (Some e, m1, log) \<Rightarrow> (Some e, m1, log)
     | (None, m1, log) \<Rightarrow> (None, SetRunning_start m1, log))"

text \<open>The module as \<open>NewWiFiModule\<close> builds it, in a session that has seen no frame.\<close>

definition NewWiFiModule :: WiFiModule where
  "NewWiFiModule =
    \<lparr>Started = False, handle = None, source = '''', minRSSI = -200, channel = 0,
     hopPeriod = 250000000, frequencies = [], ap = None, stickChan = 0,
     skipBroken = True, pktSourceChan = None, pktSourceChanClosed = False,
     shakesFile = '''', writes = 0, reads = 0, WiFi = Map.empty,
     QueueReceived = 0, handshakes = [], hopperTask = False, prunerTask = False,
     captureTask = False, closedHandles = []\<rparr>"

section \<open>\<open>Stop\<close>\<close>

text \<open>
  \<open>Stop\<close> runs beside the capture loop, the sequencers and the scheduler, so it is a
  sequence of atomic steps. \<open>stop_step\<close> is the next step of \<open>Stop\<close> at a program point,
  or \<open>None\<close> when \<open>Stop\<close> cannot move: \<open>writes.Wait()\<close> and \<open>reads.Wait()\<close> pass only at
  counter zero, the send needs room in the packet channel (of capacity \<open>cap\<close>) and
  blocks for ever on the nil channel, and \<open>Close\<close> on the nil handle panics. The first
  step is the flag update of \<open>SetRunning\<close>; the last closes the capture handle, which
  is recorded in \<open>closedHandles\<close>.
\<close>

datatype stop_pc = AtSetRunning | AtWritesWait | AtSignal | AtReadsWait | AtClose | StopReturned | Panicked

datatype stop_event = SetStopped | WritesDrained | SentinelSent | SentinelSkipped
  | ReadsDrained | HandleClosed nat | NilHandle

definition stop_step :: "nat \<Rightarrow> stop_pc \<Rightarrow> WiFiModule \<Rightarrow> (stop_event \<times> stop_pc \<times> WiFiModule) option" where
  "stop_step cap pc m =
    (case pc of
       AtSetRunning \<Rightarrow> Some (SetStopped, AtWritesWait, m\<lparr>Started := False\<rparr>)
     | AtWritesWait \<Rightarrow> if writes m = 0 then Some (WritesDrained, AtSignal, m) else None
     | AtSignal \<Rightarrow>
         if \<not> pktSourceChanClosed m then
           (case pktSourceChan m of
              None \<Rightarrow> None
            | Some q \<Rightarrow> if length q < cap
                        then Some (SentinelSent, AtReadsWait, m\<lparr>pktSourceChan := Some (q @ [None])\<rparr>)
                        else None)
         else Some (SentinelSkipped, AtReadsWait, m)
     | AtReadsWait \<Rightarrow> if reads m = 0 then Some (ReadsDrained, AtClose, m) else None
     | AtClose \<Rightarrow>
         (case handle m of
            None \<Rightarrow> Some (NilHandle, Panicked, m)
          | Some h \<Rightarrow> Some (HandleClosed h, StopReturned,
                            m\<lparr>closedHandles := closedHandles m @ [h]\<rparr>))
     | StopReturned \<Rightarrow> None
     | Panicked \<Rightarrow> None)"




section \<open>Command handlers\<close>

text \<open>
  The text helpers the handlers call: \<open>net.ParseMAC\<close> followed by \<open>String()\<close>,
  \<open>str.Comma\<close>, \<open>strconv.Atoi\<close> and \<open>network.Dot11Chan2Freq\<close>. None is defined in this
  file; they are parameters.
\<close>

record parsers =
  ParseMAC :: "string \<Rightarrow> hwaddr \<times> string option"
  Comma :: "string \<Rightarrow> string list"
  Atoi :: "string \<Rightarrow> int \<times> string option"
  Dot11Chan2Freq :: "int \<Rightarrow> int"

text \<open>A handler either returns its error value or never returns.\<close>

datatype completion = Completed "error option" | BlockedForever

text \<open>
  Modelled from the spec: the receiver of \<open>hopChanges\<close> is the channel-hopping
  scheduler, which is not among the sources; by the specification it observes the
  signal between dwell ticks. The channel is made without a buffer, so a send
  completes exactly when the scheduler task is there to receive.
\<close>

definition send_hopChanges :: "WiFiModule \<Rightarrow> bool" where
  "send_hopChanges m = hopperTask m"

definition wifi_recon_MAC :: "parsers \<Rightarrow> string \<Rightarrow> WiFiModule \<Rightarrow> completion \<times> WiFiModule" where
  "wifi_recon_MAC ps arg m =
    (case snd (ParseMAC ps arg) of
       Some e \<Rightarrow> (Completed (Some (Failure e)), m)
     | None \<Rightarrow>
         (case WiFi m (fst (ParseMAC ps arg)) of
            Some station \<Rightarrow>
              (Completed None, m\<lparr>ap := Some (fst (ParseMAC ps arg)), stickChan := Channel station\<rparr>)
          | None \<Rightarrow> (Completed (Some (ErrNoStation arg)), m)))"

definition wifi_recon_clear :: "platform \<Rightarrow> WiFiModule \<Rightarrow> completion \<times> WiFiModule" where
  "wifi_recon_clear pf m =
    (let m1 = m\<lparr>ap := None, stickChan := 0, frequencies := fst (GetSupportedFrequencies pf)\<rparr>
     in if send_hopChanges m1
        then (Completed (map_option Failure (snd (GetSupportedFrequencies pf))), m1)
        else (BlockedForever, m1))"

text \<open>The loop over the comma separated items of \<open>wifi.recon.channel\<close>.\<close>

fun collect_freqs :: "parsers \<Rightarrow> string list \<Rightarrow> int list \<Rightarrow> error + int list" where
  "collect_freqs ps [] freqs = Inr freqs"
| "collect_freqs ps (s # rest) freqs =
     (case snd (Atoi ps s) of
        Some e \<Rightarrow> Inl (Failure e)
      | None \<Rightarrow>
          if Dot11Chan2Freq ps (fst (Atoi ps s)) = 0 then Inl (ErrInvalidChannel (fst (Atoi ps s)))
          else collect_freqs ps rest (freqs @ [Dot11Chan2Freq ps (fst (Atoi ps s))]))"

definition wifi_recon_channel :: "parsers \<Rightarrow> platform \<Rightarrow> string \<Rightarrow> WiFiModule
    \<Rightarrow> completion \<times> WiFiModule" where
  "wifi_recon_channel ps pf arg m =
    (case (if arg \<noteq> ''clear'' then collect_freqs ps (Comma ps arg) [] else Inr []) of
       Inl e \<Rightarrow> (Completed (Some e), m)
     | Inr freqs \<Rightarrow>
         (case (if length freqs = 0
                then (case snd (GetSupportedFrequencies pf) of
                        Some e \<Rightarrow> Inl (Failure e)
                      | None \<Rightarrow> Inr (fst (GetSupportedFrequencies pf)))
                else Inr freqs) of
            Inl e \<Rightarrow> (Completed (Some e), m)
          | Inr freqs' \<Rightarrow>
              (let m1 = m\<lparr>frequencies := freqs'\<rparr>
               in if Running m1
                  then (if send_hopChanges m1 then (Completed None, m1) else (BlockedForever, m1))
                  else (Completed None, m1))))"

text \<open>
  A sequence of \<open>wifi.recon.channel\<close> commands, each with the answers of the platform
  at its time. The module is threaded through every handler; a handler that blocks on
  the signal has replaced the channel set before.
\<close>

fun channel_commands :: "parsers \<Rightarrow> (platform \<times> string) list \<Rightarrow> WiFiModule \<Rightarrow> WiFiModule" where
  "channel_commands ps [] m = m"
| "channel_commands ps (cmd # cmds) m =
     channel_commands ps cmds (snd (wifi_recon_channel ps (fst cmd) (snd cmd) m))"

text \<open>
  The channel set a command stands for, in the words of the specification: the
  supplied channels converted to frequencies, or the supported frequencies of the
  interface when none is supplied; \<open>None\<close> for a command that is refused. The active
  channel set after a sequence is that of the most recent command not refused.
\<close>

definition valid_item :: "parsers \<Rightarrow> string \<Rightarrow> bool" where
  "valid_item ps s = (snd (Atoi ps s) = None \<and> Dot11Chan2Freq ps (fst (Atoi ps s)) \<noteq> 0)"

definition supplied_channel_set :: "parsers \<Rightarrow> platform \<times> string \<Rightarrow> int list option" where
  "supplied_channel_set ps cmd =
    (if snd cmd = ''clear'' \<or> Comma ps (snd cmd) = [] then
       (if snd (GetSupportedFrequencies (fst cmd)) = None
        then Some (fst (GetSupportedFrequencies (fst cmd)))
        else None)
     else if list_all (valid_item ps) (Comma ps (snd cmd))
       then Some (map (\<lambda>s. Dot11Chan2Freq ps (fst (Atoi ps s))) (Comma ps (snd cmd)))
       else None)"

definition active_channel_set :: "parsers \<Rightarrow> (platform \<times> string) list \<Rightarrow> int list \<Rightarrow> int list" where
  "active_channel_set ps cmds initial =
    (case List.find (\<lambda>cmd. supplied_channel_set ps cmd \<noteq> None) (rev cmds) of
       None \<Rightarrow> initial
     | Some cmd \<Rightarrow> the (supplied_channel_set ps cmd))"

section \<open>Concrete instances\<close>

text \<open>
  A decoder that reads the frame type from the first byte and the checksum flag from
  the last, with \<open>discover*\<close> functions that do write to the registry and to the
  handshake file; a platform whose interface is down at the first activation; text
  helpers for decimal items.
\<close>

definition example_classifier :: classifier where
  "example_classifier =
    \<lparr>Dot11Parse = (\<lambda>p. case p of
        [] \<Rightarrow> None
      | t # rest \<Rightarrow> Some (\<lparr>DBMAntennaSignal = -40, ChannelFrequency = 2412\<rparr>,
          \<lparr>MainType = (if t = 2 then Dot11TypeData else Dot11TypeMgmt),
           Address1 = ''bb:bb:bb:bb:bb:bb'', Address2 = ''aa:aa:aa:aa:aa:aa'',
           Address3 = ''aa:aa:aa:aa:aa:aa'', ChecksumValid = (last p = 1)\<rparr>)),
     Dot11ParseEncryption = (\<lambda>p d. if MainType d = Dot11TypeMgmt
                                    then Some (''WPA2'', ''CCMP'', ''PSK'') else None),
     Dot11ParseWPS = (\<lambda>p d. None),
     discoverProbes = (\<lambda>r d p m. m),
     discoverAccessPoints = (\<lambda>r d p m.
        if MainType d = Dot11TypeMgmt \<and> WiFi m (Address3 d) = None
        then m\<lparr>WiFi := (WiFi m)(Address3 d \<mapsto>
               \<lparr>Encryption = '''', Cipher = '''', Authentication = '''', WPS = Map.empty,
                Received = 0, Sent = 0, Channel = 1\<rparr>)\<rparr>
        else m),
     discoverClients = (\<lambda>r d p m. m),
     discoverHandshakes = (\<lambda>r d p m. m\<lparr>handshakes := handshakes m @ [p]\<rparr>)\<rparr>"

definition example_ap :: AccessPoint where
  "example_ap = \<lparr>Encryption = ''WPA2'', Cipher = ''CCMP'', Authentication = ''PSK'',
     WPS = Map.empty, Received = 10, Sent = 20, Channel = 6\<rparr>"

definition example_module :: WiFiModule where
  "example_module =
    \<lparr>Started = True, handle = Some 1, source = '''', minRSSI = -200, channel = 0,
     hopPeriod = 250000000, frequencies = [2412, 2437], ap = None, stickChan = 0,
     skipBroken = True, pktSourceChan = Some [], pktSourceChanClosed = False,
     shakesFile = ''hs.pcap'', writes = 1, reads = 1,
     WiFi = [''aa:aa:aa:aa:aa:aa'' \<mapsto> example_ap],
     QueueReceived = 0, handshakes = [], hopperTask = True, prunerTask = True,
     captureTask = True, closedHandles = []\<rparr>"

definition example_platform :: platform where
  "example_platform =
    \<lparr>StringParam = (\<lambda>n. if n = ''wifi.handshakes.file'' then (None, ''hs.pcap'') else (None, '''')),
     IntParam = (\<lambda>n. if n = ''wifi.rssi.min'' then (None, -200) else (None, 250)),
     BoolParam = (\<lambda>n. (None, True)),
     Expand = (\<lambda>p. (''/root/'' @ p, None)),
     InterfaceName = ''wlan0'',
     OpenOffline = (\<lambda>f. (Some 7, None)),
     NewInactiveHandle = (\<lambda>i. None),
     SetRFMon = (\<lambda>i. None),
     SetSnapLen = (\<lambda>i. None),
     SetTimeout = (\<lambda>i. None),
     Activate = (\<lambda>i. if i = 0 then (None, Some ''Interface Not Up'') else (Some 3, None)),
     ActivateInterface = None,
     GetSupportedFrequencies = ([2412, 2437, 2462], None),
     SetInterfaceChannel = (\<lambda>ch. None)\<rparr>"

definition replay_platform :: platform where
  "replay_platform = example_platform\<lparr>StringParam :=
     (\<lambda>n. if n = ''wifi.handshakes.file'' then (None, ''hs.pcap'')
          else (None, ''capture.pcap''))\<rparr>"

definition broken_platform :: platform where
  "broken_platform = example_platform\<lparr>StringParam :=
     (\<lambda>n. if n = ''wifi.handshakes.file'' then (Some ''parameter not found'', '''')
          else (None, ''capture.pcap'')),
     GetSupportedFrequencies := ([], Some ''no such device'')\<rparr>"

fun example_Comma :: "string \<Rightarrow> string \<Rightarrow> string list" where
  "example_Comma item [] = (if item = [] then [] else [item])"
| "example_Comma item (c # cs) =
     (if c = CHR '','' then (if item = [] then [] else [item]) @ example_Comma [] cs
      else example_Comma (item @ [c]) cs)"

definition example_Atoi :: "string \<Rightarrow> int \<times> string option" where
  "example_Atoi s =
    (if s \<noteq> [] \<and> list_all (\<lambda>c. 48 \<le> (of_char c :: nat) \<and> (of_char c :: nat) \<le> 57) s
     then (foldl (\<lambda>a c. 10 * a + (int (of_char c) - 48)) 0 s, None)
     else (0, Some ''invalid syntax''))"

definition example_parsers :: parsers where
  "example_parsers =
    \<lparr>ParseMAC = (\<lambda>s. (s, None)),
     Comma = example_Comma [],
     Atoi = example_Atoi,
     Dot11Chan2Freq = (\<lambda>ch. if ch \<le> 13 then (ch - 1) * 5 + 2412
                            else if ch = 14 then 2484
                            else if ch \<le> 173 then (ch - 7) * 5 + 5035 else 0)\<rparr>"

section \<open>Properties of the capture loop\<close>

text \<open>
  Claim C1. While \<open>wifi.skip-broken\<close> is set, a frame taken by the running capture loop
  whose 802.11 checksum is invalid is dropped before any classification: whatever the
  \<open>discover*\<close> methods and the decoders would do, the iteration changes nothing but the
  traffic counter of the queue (so neither the registry of devices nor the handshake
  file nor any encryption, WPS or byte statistic of a station), and the loop goes on
  with the next frame.
\<close>

theorem invalid_checksum_discarded:
  assumes "Running m" and "skipBroken m"
    and "Dot11Parse c p = Some (radiotap, dot11)" and "\<not> ChecksumValid dot11"
  shows "on_packet c (Some p) m
           = (Continue, m\<lparr>QueueReceived := QueueReceived m + of_nat (length p)\<rparr>)
       \<and> WiFi (snd (on_packet c (Some p) m)) = WiFi m
       \<and> handshakes (snd (on_packet c (Some p) m)) = handshakes m
       \<and> capture_loop c (Some p # rest) m
           = capture_loop c rest (m\<lparr>QueueReceived := QueueReceived m + of_nat (length p)\<rparr>)"
  using assms by (simp add: on_packet_def TrackPacket_def Running_def)

theorem invalid_checksum_discarded_witness:
  "Running example_module \<and> skipBroken example_module
   \<and> Dot11Parse example_classifier [0, 7, 0] =
        Some (\<lparr>DBMAntennaSignal = -40, ChannelFrequency = 2412\<rparr>,
              \<lparr>MainType = Dot11TypeMgmt,
               Address1 = ''bb:bb:bb:bb:bb:bb'', Address2 = ''aa:aa:aa:aa:aa:aa'',
               Address3 = ''aa:aa:aa:aa:aa:aa'', ChecksumValid = False\<rparr>)
   \<and> WiFi (snd (on_packet example_classifier (Some [0, 7, 0]) example_module)) = WiFi example_module
   \<and> handshakes (snd (on_packet example_classifier (Some [0, 7, 0]) example_module)) = []
   \<and> QueueReceived (snd (on_packet example_classifier (Some [0, 7, 0]) example_module)) = 3"
  using invalid_checksum_discarded [of example_module example_classifier "[0, 7, 0]"
     "\<lparr>DBMAntennaSignal = -40, ChannelFrequency = 2412\<rparr>"
     "\<lparr>MainType = Dot11TypeMgmt,
       Address1 = ''bb:bb:bb:bb:bb:bb'', Address2 = ''aa:aa:aa:aa:aa:aa'',
       Address3 = ''aa:aa:aa:aa:aa:aa'', ChecksumValid = False\<rparr>" "[]"]
  by (simp add: example_module_def example_classifier_def Running_def)

text \<open>The same frame with a valid checksum is classified: it reaches the handshake file.\<close>

lemma valid_checksum_classified:
  "handshakes (snd (on_packet example_classifier (Some [0, 7, 1]) example_module)) = [[0, 7, 1]]"
  by (simp add: example_module_def example_classifier_def Running_def on_packet_def
      TrackPacket_def dispatch_def updateInfo_def updateStats_def)

lemma updateStats_frame: "updateStats dot11 p m = m\<lparr>WiFi := WiFi (updateStats dot11 p m)\<rparr>"
  by (simp add: updateStats_def Let_def split: option.splits)

lemma updateStats_present:
  assumes "MainType dot11 = Dot11TypeData" and "WiFi m a = Some st"
  shows "WiFi (updateStats dot11 p m) a =
     Some (st\<lparr>Received := Received st + (if a = Address1 dot11 then of_nat (length p) else 0),
              Sent := Sent st + (if a = Address2 dot11 then of_nat (length p) else 0)\<rparr>)"
  using assms by (auto simp add: updateStats_def Let_def split: option.splits)

lemma updateStats_absent:
  assumes "WiFi m a = None"
  shows "WiFi (updateStats dot11 p m) a = None"
  using assms by (auto simp add: updateStats_def Let_def split: option.splits)

text \<open>
  Claim C7. For a data frame that parsed and passed the checksum test, \<open>updateStats\<close>
  is the last call of the iteration. It adds the length of the frame (as \<open>uint64\<close>) to
  \<open>Received\<close> of the registry record under \<open>Address1\<close> and to \<open>Sent\<close> of the record
  under \<open>Address2\<close>, for the records that exist; an address without a record still
  has none afterwards, and nothing outside the registry changes. \<open>m'\<close> is the module
  as the calls before \<open>updateStats\<close> leave it.
\<close>

theorem data_frame_byte_attribution:
  assumes "Running m" and "Dot11Parse c p = Some (radiotap, dot11)"
    and "skipBroken m \<longrightarrow> ChecksumValid dot11"
    and "MainType dot11 = Dot11TypeData"
    and "m' = updateInfo c dot11 p
          (discoverHandshakes c radiotap dot11 p
             (discoverClients c radiotap dot11 p
                (discoverAccessPoints c radiotap dot11 p
                   (discoverProbes c radiotap dot11 p (TrackPacket (of_nat (length p)) m)))))"
  shows "on_packet c (Some p) m = (Continue, updateStats dot11 p m')
     \<and> updateStats dot11 p m' = m'\<lparr>WiFi := WiFi (updateStats dot11 p m')\<rparr>
     \<and> (\<forall>a st. WiFi m' a = Some st \<longrightarrow>
           WiFi (updateStats dot11 p m') a =
             Some (st\<lparr>Received := Received st + (if a = Address1 dot11 then of_nat (length p) else 0),
                      Sent := Sent st + (if a = Address2 dot11 then of_nat (length p) else 0)\<rparr>))
     \<and> (\<forall>a. WiFi m' a = None \<longrightarrow> WiFi (updateStats dot11 p m') a = None)"
proof -
  have "on_packet c (Some p) m = (Continue, updateStats dot11 p m')"
    using assms(1,2,3,5) by (auto simp add: on_packet_def dispatch_def TrackPacket_def)
  moreover note updateStats_frame [of dot11 p m']
  moreover have "\<forall>a st. WiFi m' a = Some st \<longrightarrow>
           WiFi (updateStats dot11 p m') a =
             Some (st\<lparr>Received := Received st + (if a = Address1 dot11 then of_nat (length p) else 0),
                      Sent := Sent st + (if a = Address2 dot11 then of_nat (length p) else 0)\<rparr>)"
    using updateStats_present [OF assms(4)] by blast
  moreover have "\<forall>a. WiFi m' a = None \<longrightarrow> WiFi (updateStats dot11 p m') a = None"
    using updateStats_absent by blast
  ultimately show ?thesis by blast
qed

theorem data_frame_byte_attribution_witness:
  "Running example_module
   \<and> MainType (snd (the (Dot11Parse example_classifier [2, 9, 9, 1]))) = Dot11TypeData
   \<and> skipBroken example_module
   \<and> ChecksumValid (snd (the (Dot11Parse example_classifier [2, 9, 9, 1])))
   \<and> WiFi (snd (on_packet example_classifier (Some [2, 9, 9, 1]) example_module)) ''aa:aa:aa:aa:aa:aa''
       = Some (example_ap\<lparr>Received := 10, Sent := 24\<rparr>)
   \<and> WiFi (snd (on_packet example_classifier (Some [2, 9, 9, 1]) example_module)) ''bb:bb:bb:bb:bb:bb''
       = None"
proof -
  let ?rt = "\<lparr>DBMAntennaSignal = -40, ChannelFrequency = 2412\<rparr>"
  let ?d = "\<lparr>MainType = Dot11TypeData,
       Address1 = ''bb:bb:bb:bb:bb:bb'', Address2 = ''aa:aa:aa:aa:aa:aa'',
       Address3 = ''aa:aa:aa:aa:aa:aa'', ChecksumValid = True\<rparr>"
  let ?m' = "example_module\<lparr>QueueReceived := 4, handshakes := [[2, 9, 9, 1]]\<rparr>"
  have run: "Running example_module"
    by (simp add: Running_def example_module_def)
  have parse: "Dot11Parse example_classifier [2, 9, 9, 1] = Some (?rt, ?d)"
    by (simp add: example_classifier_def)
  have valid: "skipBroken example_module \<longrightarrow> ChecksumValid ?d" by simp
  have data: "MainType ?d = Dot11TypeData" by simp
  have before: "?m' = updateInfo example_classifier ?d [2, 9, 9, 1]
          (discoverHandshakes example_classifier ?rt ?d [2, 9, 9, 1]
             (discoverClients example_classifier ?rt ?d [2, 9, 9, 1]
                (discoverAccessPoints example_classifier ?rt ?d [2, 9, 9, 1]
                   (discoverProbes example_classifier ?rt ?d [2, 9, 9, 1]
                      (TrackPacket (of_nat (length [2, 9, 9, 1 :: 8 word])) example_module)))))"
    by (simp add: example_classifier_def updateInfo_def TrackPacket_def example_module_def)
  have aa: "WiFi ?m' ''aa:aa:aa:aa:aa:aa'' = Some example_ap"
    and bb: "WiFi ?m' ''bb:bb:bb:bb:bb:bb'' = None"
    by (simp_all add: example_module_def)
  from data_frame_byte_attribution [OF run parse valid data before] aa bb
  have "on_packet example_classifier (Some [2, 9, 9, 1]) example_module
          = (Continue, updateStats ?d [2, 9, 9, 1] ?m')"
    and "WiFi (updateStats ?d [2, 9, 9, 1] ?m') ''aa:aa:aa:aa:aa:aa''
          = Some (example_ap\<lparr>Received := Received example_ap + 0, Sent := Sent example_ap + 4\<rparr>)"
    and "WiFi (updateStats ?d [2, 9, 9, 1] ?m') ''bb:bb:bb:bb:bb:bb'' = None"
    by auto
  moreover have "skipBroken example_module" by (simp add: example_module_def)
  ultimately show ?thesis using run parse by (simp add: example_ap_def)
qed




text \<open>
  After the exit the worker sets \<open>pktSourceChanClosed\<close> and gives back its count in
  \<open>reads\<close>, which is what \<open>Stop\<close> waits for next.
\<close>

lemma worker_ends_after_sentinel:
  "\<not> Running m \<Longrightarrow>
     worker c (None # rest) m
       = (worker_launch m)\<lparr>pktSourceChanClosed := True, reads := reads m, captureTask := False\<rparr>"
  by (simp add: worker_def worker_finish_def worker_launch_def on_packet_def Running_def)

section \<open>Properties of \<open>Stop\<close>\<close>





text \<open>\<open>Stop\<close> does not get past a barrier while its counter is positive.\<close>

lemma stop_waits_at_barriers:
  "0 < writes m \<Longrightarrow> stop_step cap AtWritesWait m = None"
  "0 < reads m \<Longrightarrow> stop_step cap AtReadsWait m = None"
  by (simp_all add: stop_step_def)



section \<open>Properties of \<open>Configure\<close> and \<open>Start\<close>\<close>

text \<open>\<open>Configure\<close> writes seven fields of the module and nothing else.\<close>

lemma activate_live_frame_retry:
  assumes "retry \<noteq> 0" and "activate_live pf retry m log = (r, m', log')"
  shows "m' = m\<lparr>handle := handle m'\<rparr>"
  using assms(2) assms(1)
  by (subst (asm) activate_live.simps) (auto simp add: Let_def split: option.splits)

lemma activate_live_frame:
  assumes "activate_live pf 0 m log = (r, m', log')"
  shows "m' = m\<lparr>handle := handle m'\<rparr>"
proof -
  from assms consider
      (direct) "m' = m \<or> m' = m\<lparr>handle := fst (Activate pf 0)\<rparr>"
    | (again) "\<exists>lg. activate_live pf 1 (m\<lparr>handle := fst (Activate pf 0)\<rparr>) lg = (r, m', log')"
    by (subst (asm) activate_live.simps)
       (auto simp add: Let_def split: option.splits if_splits)
  then show ?thesis
  proof cases
    case direct
    then show ?thesis by auto
  next
    case again
    then obtain lg where
      "activate_live pf 1 (m\<lparr>handle := fst (Activate pf 0)\<rparr>) lg = (r, m', log')" by blast
    from activate_live_frame_retry [OF _ this]
    have "m' = m\<lparr>handle := fst (Activate pf 0), handle := handle m'\<rparr>" by simp
    then show ?thesis by simp
  qed
qed

lemma configure_params_frame:
  "configure_params pf m = (r, m', log) \<Longrightarrow>
     m' = m\<lparr>source := source m', shakesFile := shakesFile m', minRSSI := minRSSI m'\<rparr>"
  by (auto simp add: configure_params_def Let_def split: option.splits if_splits)

lemma configure_handle_frame:
  "configure_handle pf m = (r, m', log) \<Longrightarrow> m' = m\<lparr>handle := handle m'\<rparr>"
  using activate_live_frame [of pf m "[]" r m' log]
  by (auto simp add: configure_handle_def Let_def split: option.splits if_splits)

lemma configure_hopping_frame:
  "configure_hopping pf m log = (r, m', log') \<Longrightarrow>
     m' = m\<lparr>skipBroken := skipBroken m', hopPeriod := hopPeriod m', frequencies := frequencies m'\<rparr>"
  by (auto simp add: configure_hopping_def Let_def split: option.splits if_splits)

lemma Configure_frame:
  assumes "Configure pf m = (r, m', log)"
  shows "m' = m\<lparr>handle := handle m', source := source m', minRSSI := minRSSI m',
                hopPeriod := hopPeriod m', frequencies := frequencies m',
                skipBroken := skipBroken m', shakesFile := shakesFile m'\<rparr>"
proof -
  obtain r1 m1 l1 where p: "configure_params pf m = (r1, m1, l1)"
    by (cases "configure_params pf m") auto
  obtain r2 m2 l2 where h: "configure_handle pf m1 = (r2, m2, l2)"
    by (cases "configure_handle pf m1") auto
  obtain r3 m3 l3 where t: "configure_hopping pf m2 l2 = (r3, m3, l3)"
    by (cases "configure_hopping pf m2 l2") auto
  from configure_params_frame [OF p] obtain s sf rs where
    m1: "m1 = m\<lparr>source := s, shakesFile := sf, minRSSI := rs\<rparr>" by blast
  from configure_handle_frame [OF h] obtain hd where
    m2: "m2 = m1\<lparr>handle := hd\<rparr>" by blast
  from configure_hopping_frame [OF t] obtain sb hp fs where
    m3: "m3 = m2\<lparr>skipBroken := sb, hopPeriod := hp, frequencies := fs\<rparr>" by blast
  from assms p h t have "m' = m1 \<or> m' = m2 \<or> m' = m3"
    by (auto simp add: Configure_def split: option.splits)
  then show ?thesis by (auto simp add: m1 m2 m3)
qed

lemma Start_result:
  "Start pf m = (case Configure pf m of
       (Some e, m1, log) \<Rightarrow> (Some e, m1, log)
     | (None, m1, log) \<Rightarrow> (None, m1\<lparr>Started := True,
          hopperTask := hopperTask m1 \<or> (channel m1 = 0 \<and> source m1 = ''''),
          prunerTask := True, reads := reads m1 + 1, pktSourceChan := Some [],
          captureTask := True\<rparr>, log))"
  by (simp add: Start_def SetRunning_start_def worker_launch_def split: prod.splits option.splits)

lemma Configure_source:
  assumes "Configure pf m = (r, m', log)"
  shows "source m' = snd (StringParam pf ''wifi.source.file'')"
proof -
  obtain r1 m1 l1 where p: "configure_params pf m = (r1, m1, l1)"
    by (cases "configure_params pf m") auto
  obtain r2 m2 l2 where h: "configure_handle pf m1 = (r2, m2, l2)"
    by (cases "configure_handle pf m1") auto
  obtain r3 m3 l3 where t: "configure_hopping pf m2 l2 = (r3, m3, l3)"
    by (cases "configure_hopping pf m2 l2") auto
  from p have s1: "source m1 = snd (StringParam pf ''wifi.source.file'')"
    by (auto simp add: configure_params_def Let_def split: option.splits if_splits)
  from configure_handle_frame [OF h] obtain hd where "m2 = m1\<lparr>handle := hd\<rparr>" by blast
  then have s2: "source m2 = source m1" by simp
  from configure_hopping_frame [OF t] obtain sb hp fs where
    "m3 = m2\<lparr>skipBroken := sb, hopPeriod := hp, frequencies := fs\<rparr>" by blast
  then have s3: "source m3 = source m2" by simp
  from assms p h t have "m' = m1 \<or> m' = m2 \<or> m' = m3"
    by (auto simp add: Configure_def split: option.splits)
  with s1 s2 s3 show ?thesis by auto
qed

text \<open>
  Claim C10, as the code has it. When \<open>Configure\<close> fails, \<open>Start\<close> returns that error
  and starts nothing: the running flag, the three task flags, the packet channel, its
  closed flag and both wait-group counters are as before, as are the registry and the
  channel and filter fields. What may differ are the seven fields \<open>Configure\<close> assigns
  on its way (\<open>source\<close>, \<open>shakesFile\<close>, \<open>minRSSI\<close>, \<open>handle\<close>, \<open>skipBroken\<close>,
  \<open>hopPeriod\<close>, \<open>frequencies\<close>).
\<close>

theorem start_failure_starts_nothing:
  assumes "Configure pf m = (Some e, m', log)"
  shows "Start pf m = (Some e, m', log)
       \<and> Started m' = Started m \<and> captureTask m' = captureTask m
       \<and> hopperTask m' = hopperTask m \<and> prunerTask m' = prunerTask m
       \<and> pktSourceChan m' = pktSourceChan m
       \<and> pktSourceChanClosed m' = pktSourceChanClosed m
       \<and> reads m' = reads m \<and> writes m' = writes m
       \<and> m' = m\<lparr>handle := handle m', source := source m', minRSSI := minRSSI m',
                  hopPeriod := hopPeriod m', frequencies := frequencies m',
                  skipBroken := skipBroken m', shakesFile := shakesFile m'\<rparr>"
proof -
  have start: "Start pf m = (Some e, m', log)"
    using assms by (simp add: Start_def)
  from Configure_frame [OF assms] obtain hd s r hp fs sb sf where
    m': "m' = m\<lparr>handle := hd, source := s, minRSSI := r, hopPeriod := hp,
                 frequencies := fs, skipBroken := sb, shakesFile := sf\<rparr>"
    by blast
  show ?thesis using start by (simp add: m')
qed

theorem start_failure_starts_nothing_witness:
  "Configure broken_platform NewWiFiModule
     = (Some (Failure ''parameter not found''), NewWiFiModule\<lparr>source := ''capture.pcap''\<rparr>, [])
   \<and> Start broken_platform NewWiFiModule
     = (Some (Failure ''parameter not found''), NewWiFiModule\<lparr>source := ''capture.pcap''\<rparr>, [])
   \<and> Started (NewWiFiModule\<lparr>source := ''capture.pcap''\<rparr>) = Started NewWiFiModule"
proof -
  have c: "Configure broken_platform NewWiFiModule
     = (Some (Failure ''parameter not found''), NewWiFiModule\<lparr>source := ''capture.pcap''\<rparr>, [])"
    by (simp add: Configure_def configure_params_def broken_platform_def example_platform_def
        NewWiFiModule_def)
  from start_failure_starts_nothing [OF c] c show ?thesis by simp
qed

text \<open>
  Claim C10 as stated fails: here \<open>Configure\<close> reads the source file parameter, stores
  it in the module, and then fails on the next parameter, so \<open>Start\<close> returns the error
  with a module that differs from the one it was called on.
\<close>

theorem start_failure_changes_module:
  "fst (Start broken_platform NewWiFiModule) = Some (Failure ''parameter not found'')
   \<and> source (fst (snd (Start broken_platform NewWiFiModule))) = ''capture.pcap''
   \<and> source NewWiFiModule = ''''
   \<and> fst (snd (Start broken_platform NewWiFiModule)) \<noteq> NewWiFiModule"
proof -
  have s: "Start broken_platform NewWiFiModule
     = (Some (Failure ''parameter not found''), NewWiFiModule\<lparr>source := ''capture.pcap''\<rparr>, [])"
    by (simp add: Start_def Configure_def configure_params_def broken_platform_def
        example_platform_def NewWiFiModule_def)
  have "source (NewWiFiModule\<lparr>source := ''capture.pcap''\<rparr>) \<noteq> source NewWiFiModule"
    by (simp add: NewWiFiModule_def)
  then have "NewWiFiModule\<lparr>source := ''capture.pcap''\<rparr> \<noteq> NewWiFiModule" by metis
  then show ?thesis using s by (simp add: NewWiFiModule_def)
qed

text \<open>
  Claim C9, as the code has it. \<open>Start\<close> leaves the scheduler task active only if it
  was active before the call or the module, as \<open>Configure\<close> has just set it up, reads a
  live interface (empty source file, which is the value of the parameter
  \<open>wifi.source.file\<close>) with channel 0; a call that fails starts no scheduler. So a
  \<open>Start\<close> on a module without scheduler task never starts one for a replay file or a
  fixed channel.
\<close>

theorem hopper_started_only_live_unpinned:
  assumes "Start pf m = (r, m', log)"
  shows "(hopperTask m' \<longrightarrow> hopperTask m \<or> (source m' = '''' \<and> channel m' = 0))
       \<and> (r = None \<longrightarrow> hopperTask m' = (hopperTask m \<or> (channel m' = 0 \<and> source m' = '''')))
       \<and> (r \<noteq> None \<longrightarrow> hopperTask m' = hopperTask m)
       \<and> source m' = snd (StringParam pf ''wifi.source.file'')
       \<and> channel m' = channel m"
proof -
  obtain rc mc lc where c: "Configure pf m = (rc, mc, lc)"
    by (cases "Configure pf m") auto
  from Configure_frame [OF c] obtain hd s rs hp fs sb sf where
    mc: "mc = m\<lparr>handle := hd, source := s, minRSSI := rs, hopPeriod := hp,
                 frequencies := fs, skipBroken := sb, shakesFile := sf\<rparr>"
    by blast
  have src: "source mc = snd (StringParam pf ''wifi.source.file'')"
    by (rule Configure_source [OF c])
  have keep: "hopperTask mc = hopperTask m" "channel mc = channel m"
    by (simp_all add: mc)
  show ?thesis
  proof (cases rc)
    case None
    with assms c have "r = None" and
      "m' = mc\<lparr>Started := True,
          hopperTask := hopperTask mc \<or> (channel mc = 0 \<and> source mc = ''''),
          prunerTask := True, reads := reads mc + 1, pktSourceChan := Some [],
          captureTask := True\<rparr>"
      by (simp_all add: Start_result)
    then show ?thesis using src keep by auto
  next
    case (Some e)
    with assms c have "r = Some e" and "m' = mc"
      by (simp_all add: Start_result)
    then show ?thesis using src keep by auto
  qed
qed

lemma Start_live_example:
  "Start example_platform NewWiFiModule =
     (None,
      NewWiFiModule\<lparr>Started := True, handle := Some 3, frequencies := [2412, 2437, 2462],
        pktSourceChan := Some [], shakesFile := ''/root/hs.pcap'', reads := 1,
        hopperTask := True, prunerTask := True, captureTask := True\<rparr>,
      attempt_calls 0 @ [CallActivateInterface] @ attempt_calls 1
        @ [CallGetSupportedFrequencies, CallSetInterfaceChannel 1, CallCleanUp 1, CallCleanUp 0])"
  by (simp add: Start_result Configure_def configure_params_def configure_handle_def
      configure_hopping_def activate_live.simps deferred_def attempt_calls_def
      example_platform_def NewWiFiModule_def ErrIfaceNotUp_def Let_def)

theorem hopper_started_only_live_unpinned_witness:
  "hopperTask (fst (snd (Start example_platform NewWiFiModule)))
   \<and> source (fst (snd (Start example_platform NewWiFiModule))) = ''''
   \<and> channel (fst (snd (Start example_platform NewWiFiModule))) = 0
   \<and> \<not> hopperTask NewWiFiModule"
  using hopper_started_only_live_unpinned [of example_platform NewWiFiModule
      "fst (Start example_platform NewWiFiModule)"
      "fst (snd (Start example_platform NewWiFiModule))"
      "snd (snd (Start example_platform NewWiFiModule))"]
  by (simp add: Start_live_example) (simp add: NewWiFiModule_def)

text \<open>
  Claim C9 as stated fails: after a \<open>Start\<close> on the live interface, a second \<open>Start\<close>
  with the parameter \<open>wifi.source.file\<close> set runs \<open>Configure\<close> first, which stores the
  file name in the module while the scheduler task of the first call is active.
\<close>

theorem hopper_active_with_replay_source:
  "hopperTask (fst (snd (Start replay_platform (fst (snd (Start example_platform NewWiFiModule))))))
   \<and> source (fst (snd (Start replay_platform (fst (snd (Start example_platform NewWiFiModule))))))
       = ''capture.pcap''"
  by (simp add: Start_live_example)
     (simp add: Start_result Configure_def configure_params_def configure_handle_def
      configure_hopping_def deferred_def replay_platform_def example_platform_def
      NewWiFiModule_def Let_def)

text \<open>The second iteration of the activation loop never goes round again.\<close>

lemma activate_live_second:
  assumes "inactive_ready pf 1"
  shows "activate_live pf 1 m log =
     (map_option ErrActivate (snd (Activate pf 1)), m\<lparr>handle := fst (Activate pf 1)\<rparr>,
      log @ attempt_calls 1)"
  using assms
  by (subst activate_live.simps)
     (simp add: inactive_ready_def attempt_calls_def Let_def split: option.splits)

lemma activate_live_first:
  assumes "inactive_ready pf 0"
  shows "activate_live pf 0 m [] =
     (case snd (Activate pf 0) of
        None \<Rightarrow> (None, m\<lparr>handle := fst (Activate pf 0)\<rparr>, attempt_calls 0)
      | Some e \<Rightarrow>
          if e = ErrIfaceNotUp then
            (case ActivateInterface pf of
               Some e' \<Rightarrow> (Some (Failure e'), m\<lparr>handle := fst (Activate pf 0)\<rparr>,
                           attempt_calls 0 @ [CallActivateInterface])
             | None \<Rightarrow> activate_live pf 1 (m\<lparr>handle := fst (Activate pf 0)\<rparr>)
                         (attempt_calls 0 @ [CallActivateInterface]))
          else (Some (ErrActivate e), m\<lparr>handle := fst (Activate pf 0)\<rparr>, attempt_calls 0))"
  using assms
  by (subst activate_live.simps)
     (simp add: inactive_ready_def attempt_calls_def Let_def split: option.splits)

lemma activate_live_last_calls:
  assumes "retry \<noteq> 0" and "activate_live pf retry m log = (r, m', log')"
  shows "count_list log' CallActivateInterface = count_list log CallActivateInterface"
    and "count_list log' (CallActivate retry) \<le> count_list log (CallActivate retry) + 1"
    and "i \<noteq> retry \<Longrightarrow> count_list log' (CallActivate i) = count_list log (CallActivate i)"
  using assms(2) assms(1)
  by (subst (asm) activate_live.simps, auto simp add: Let_def split: option.splits)+

lemma activate_live_calls:
  assumes "activate_live pf 0 m [] = (r, m', log)"
  shows "count_list log CallActivateInterface \<le> 1
       \<and> (\<forall>i. count_list log (CallActivate i) \<le> (if i \<le> 1 then 1 else 0))"
proof -
  from assms consider
      (direct) "count_list log CallActivateInterface \<le> 1"
         "count_list log (CallActivate 0) \<le> 1"
         "\<forall>i. i \<noteq> 0 \<longrightarrow> count_list log (CallActivate i) = 0"
    | (again) "\<exists>m1. activate_live pf 1 m1 (attempt_calls 0 @ [CallActivateInterface]) = (r, m', log)"
    by (subst (asm) activate_live.simps)
       (auto simp add: Let_def attempt_calls_def split: option.splits if_splits)
  then show ?thesis
  proof cases
    case direct
    then show ?thesis by (metis le_zero_eq zero_le le_refl)
  next
    case again
    then obtain m1 where
      run: "activate_live pf 1 m1 (attempt_calls 0 @ [CallActivateInterface]) = (r, m', log)"
      by blast
    have one: "count_list log CallActivateInterface = 1"
      using activate_live_last_calls(1) [OF _ run] by (simp add: attempt_calls_def)
    have c1: "count_list log (CallActivate 1) \<le> 1"
      using activate_live_last_calls(2) [OF _ run] by (simp add: attempt_calls_def)
    have c0: "count_list log (CallActivate 0) = 1"
      using activate_live_last_calls(3) [OF _ run, of 0] by (simp add: attempt_calls_def)
    have rest: "count_list log (CallActivate i) = 0" if "\<not> i \<le> 1" for i
      using activate_live_last_calls(3) [OF _ run, of i] that by (simp add: attempt_calls_def)
    have "count_list log (CallActivate i) \<le> (if i \<le> 1 then 1 else 0)" for i
    proof (cases "i = 0")
      case True
      then show ?thesis using c0 by simp
    next
      case False
      show ?thesis
      proof (cases "i = 1")
        case True
        then show ?thesis using c1 by simp
      next
        case False
        with \<open>i \<noteq> 0\<close> have "\<not> i \<le> 1" by simp
        then show ?thesis using rest by simp
      qed
    qed
    then show ?thesis using one by simp
  qed
qed

lemma Configure_live_failure:
  assumes "configure_params pf m0 = (None, m, l0)" and "source m = ''''"
    and "activate_live pf 0 m [] = (Some err, m', log)"
  shows "fst (Configure pf m0) = Some err \<and> fst (Start pf m0) = Some err
       \<and> Started (fst (snd (Start pf m0))) = Started m0"
proof -
  from assms have c: "Configure pf m0 = (Some err, m', log @ deferred pf log)"
    by (simp add: Configure_def configure_handle_def)
  from Configure_frame [OF c] obtain hd s r hp fs sb sf where
    "m' = m0\<lparr>handle := hd, source := s, minRSSI := r, hopPeriod := hp,
              frequencies := fs, skipBroken := sb, shakesFile := sf\<rparr>"
    by blast
  then show ?thesis using c by (simp add: Start_def)
qed

text \<open>
  Claim C6. On a live interface (the four calls that prepare the inactive handle
  succeed), let the first \<open>Activate\<close> fail with error text \<open>e\<close>.
  If \<open>e\<close> is not \<open>Interface Not Up\<close>, the failure is returned and no recovery is tried.
  If it is, \<open>network.ActivateInterface\<close> is called once; if that fails its error is
  returned, otherwise the loop runs once more and the outcome of the second \<open>Activate\<close>
  is final, whatever its error. In every case \<open>ActivateInterface\<close> is called at most
  once and \<open>Activate\<close> at most twice, and every error of the loop is the error of
  \<open>Configure\<close> and of \<open>Start\<close>, which then does not mark the module running.
\<close>

theorem activation_retried_once:
  assumes "inactive_ready pf 0" and "snd (Activate pf 0) = Some e"
  shows "(e \<noteq> ErrIfaceNotUp \<longrightarrow>
            activate_live pf 0 m [] =
              (Some (ErrActivate e), m\<lparr>handle := fst (Activate pf 0)\<rparr>, attempt_calls 0))
       \<and> (\<forall>e'. e = ErrIfaceNotUp \<and> ActivateInterface pf = Some e' \<longrightarrow>
            activate_live pf 0 m [] =
              (Some (Failure e'), m\<lparr>handle := fst (Activate pf 0)\<rparr>,
               attempt_calls 0 @ [CallActivateInterface]))
       \<and> (e = ErrIfaceNotUp \<and> ActivateInterface pf = None \<and> inactive_ready pf 1 \<longrightarrow>
            activate_live pf 0 m [] =
              (map_option ErrActivate (snd (Activate pf 1)),
               m\<lparr>handle := fst (Activate pf 1)\<rparr>,
               attempt_calls 0 @ [CallActivateInterface] @ attempt_calls 1))
       \<and> count_list (snd (snd (activate_live pf 0 m []))) CallActivateInterface \<le> 1
       \<and> (\<forall>i. count_list (snd (snd (activate_live pf 0 m []))) (CallActivate i)
              \<le> (if i \<le> 1 then 1 else 0))
       \<and> (\<forall>m0 l0 err. configure_params pf m0 = (None, m, l0) \<and> source m = ''''
              \<and> fst (activate_live pf 0 m []) = Some err \<longrightarrow>
            fst (Configure pf m0) = Some err \<and> fst (Start pf m0) = Some err
            \<and> Started (fst (snd (Start pf m0))) = Started m0)"
proof -
  note first = activate_live_first [OF assms(1), of m]
  have a: "e \<noteq> ErrIfaceNotUp \<longrightarrow>
            activate_live pf 0 m [] =
              (Some (ErrActivate e), m\<lparr>handle := fst (Activate pf 0)\<rparr>, attempt_calls 0)"
    using first assms(2) by simp
  have b: "\<forall>e'. e = ErrIfaceNotUp \<and> ActivateInterface pf = Some e' \<longrightarrow>
            activate_live pf 0 m [] =
              (Some (Failure e'), m\<lparr>handle := fst (Activate pf 0)\<rparr>,
               attempt_calls 0 @ [CallActivateInterface])"
    using first assms(2) by simp
  have c: "e = ErrIfaceNotUp \<and> ActivateInterface pf = None \<and> inactive_ready pf 1 \<longrightarrow>
            activate_live pf 0 m [] =
              (map_option ErrActivate (snd (Activate pf 1)),
               m\<lparr>handle := fst (Activate pf 1)\<rparr>,
               attempt_calls 0 @ [CallActivateInterface] @ attempt_calls 1)"
  proof
    assume h: "e = ErrIfaceNotUp \<and> ActivateInterface pf = None \<and> inactive_ready pf 1"
    then have "activate_live pf 0 m [] =
        activate_live pf 1 (m\<lparr>handle := fst (Activate pf 0)\<rparr>)
          (attempt_calls 0 @ [CallActivateInterface])"
      using first assms(2) by simp
    also have "\<dots> = (map_option ErrActivate (snd (Activate pf 1)),
               m\<lparr>handle := fst (Activate pf 1)\<rparr>,
               attempt_calls 0 @ [CallActivateInterface] @ attempt_calls 1)"
      using h activate_live_second [of pf "m\<lparr>handle := fst (Activate pf 0)\<rparr>"
          "attempt_calls 0 @ [CallActivateInterface]"]
      by simp
    finally show "activate_live pf 0 m [] =
              (map_option ErrActivate (snd (Activate pf 1)),
               m\<lparr>handle := fst (Activate pf 1)\<rparr>,
               attempt_calls 0 @ [CallActivateInterface] @ attempt_calls 1)" .
  qed
  obtain r m' log where run: "activate_live pf 0 m [] = (r, m', log)"
    by (cases "activate_live pf 0 m []") auto
  have d: "count_list (snd (snd (activate_live pf 0 m []))) CallActivateInterface \<le> 1
       \<and> (\<forall>i. count_list (snd (snd (activate_live pf 0 m []))) (CallActivate i)
              \<le> (if i \<le> 1 then 1 else 0))"
    using activate_live_calls [OF run] by (simp add: run)
  have f: "\<forall>m0 l0 err. configure_params pf m0 = (None, m, l0) \<and> source m = ''''
              \<and> fst (activate_live pf 0 m []) = Some err \<longrightarrow>
            fst (Configure pf m0) = Some err \<and> fst (Start pf m0) = Some err
            \<and> Started (fst (snd (Start pf m0))) = Started m0"
    using Configure_live_failure [of pf _ m _ _ m' log] run by auto
  from a b c d f show ?thesis by blast
qed

text \<open>
  The interface is down at the first activation and up after the recovery; and a
  platform on which the retry reports the interface down again, which is final.
\<close>

theorem activation_retried_once_witness:
  "inactive_ready example_platform 0
   \<and> snd (Activate example_platform 0) = Some ErrIfaceNotUp
   \<and> ActivateInterface example_platform = None \<and> inactive_ready example_platform 1
   \<and> activate_live example_platform 0 NewWiFiModule [] =
       (None, NewWiFiModule\<lparr>handle := Some 3\<rparr>,
        attempt_calls 0 @ [CallActivateInterface] @ attempt_calls 1)"
proof -
  have r0: "inactive_ready example_platform 0" and r1: "inactive_ready example_platform 1"
    by (simp_all add: inactive_ready_def example_platform_def)
  have e: "snd (Activate example_platform 0) = Some ErrIfaceNotUp"
    by (simp add: example_platform_def ErrIfaceNotUp_def)
  have up: "ActivateInterface example_platform = None"
    by (simp add: example_platform_def)
  have second: "Activate example_platform 1 = (Some 3, None)"
    by (simp add: example_platform_def)
  from activation_retried_once [OF r0 e, of NewWiFiModule] r0 r1 e up second
  show ?thesis by simp
qed

lemma retry_failure_is_final:
  "fst (activate_live (example_platform\<lparr>Activate := (\<lambda>i. (None, Some ''Interface Not Up''))\<rparr>)
          0 NewWiFiModule [])
     = Some (ErrActivate ''Interface Not Up'')
   \<and> snd (snd (activate_live
          (example_platform\<lparr>Activate := (\<lambda>i. (None, Some ''Interface Not Up''))\<rparr>)
          0 NewWiFiModule []))
     = attempt_calls 0 @ [CallActivateInterface] @ attempt_calls 1"
  by (simp add: activate_live.simps example_platform_def ErrIfaceNotUp_def attempt_calls_def
      Let_def)

section \<open>Properties of the command handlers\<close>

lemma collect_freqs_valid:
  "list_all (valid_item ps) items \<Longrightarrow>
     collect_freqs ps items freqs
       = Inr (freqs @ map (\<lambda>s. Dot11Chan2Freq ps (fst (Atoi ps s))) items)"
  by (induction items arbitrary: freqs) (auto simp add: valid_item_def)

lemma collect_freqs_invalid:
  "\<not> list_all (valid_item ps) items \<Longrightarrow> \<exists>e. collect_freqs ps items freqs = Inl e"
  by (induction items arbitrary: freqs) (auto simp add: valid_item_def split: option.splits)

lemma wifi_recon_channel_refused:
  assumes "supplied_channel_set ps (pf, arg) = None"
  shows "\<exists>e. wifi_recon_channel ps pf arg m = (Completed (Some e), m)"
proof (cases "arg = ''clear'' \<or> Comma ps arg = []")
  case True
  with assms have "snd (GetSupportedFrequencies pf) \<noteq> None"
    by (auto simp add: supplied_channel_set_def split: if_splits)
  with True show ?thesis
    by (auto simp add: wifi_recon_channel_def)
next
  case False
  with assms have "\<not> list_all (valid_item ps) (Comma ps arg)"
    by (auto simp add: supplied_channel_set_def split: if_splits)
  from collect_freqs_invalid [OF this, of "[]"] False show ?thesis
    by (auto simp add: wifi_recon_channel_def)
qed

lemma wifi_recon_channel_accepted:
  assumes "supplied_channel_set ps (pf, arg) = Some fs"
  shows "wifi_recon_channel ps pf arg m =
     (if Running m \<and> \<not> hopperTask m then BlockedForever else Completed None,
      m\<lparr>frequencies := fs\<rparr>)"
proof (cases "arg = ''clear'' \<or> Comma ps arg = []")
  case True
  with assms have "snd (GetSupportedFrequencies pf) = None"
    and "fs = fst (GetSupportedFrequencies pf)"
    by (auto simp add: supplied_channel_set_def split: if_splits)
  with True show ?thesis
    by (auto simp add: wifi_recon_channel_def Running_def send_hopChanges_def Let_def)
next
  case False
  with assms have valid: "list_all (valid_item ps) (Comma ps arg)"
    and fs: "fs = map (\<lambda>s. Dot11Chan2Freq ps (fst (Atoi ps s))) (Comma ps arg)"
    by (auto simp add: supplied_channel_set_def split: if_splits)
  from False fs have "fs \<noteq> []" by simp
  with collect_freqs_valid [OF valid, of "[]"] False fs show ?thesis
    by (auto simp add: wifi_recon_channel_def Running_def send_hopChanges_def Let_def)
qed

lemma wifi_recon_channel_frequencies:
  "frequencies (snd (wifi_recon_channel ps pf arg m)) =
     (case supplied_channel_set ps (pf, arg) of None \<Rightarrow> frequencies m | Some fs \<Rightarrow> fs)"
proof (cases "supplied_channel_set ps (pf, arg)")
  case None
  from wifi_recon_channel_refused [OF this, of m] None show ?thesis by auto
next
  case (Some fs)
  from wifi_recon_channel_accepted [OF this, of m] Some show ?thesis by simp
qed

lemma find_append_cases:
  "List.find P (xs @ ys) = (case List.find P xs of None \<Rightarrow> List.find P ys | Some x \<Rightarrow> Some x)"
  by (induction xs) auto

lemma active_channel_set_Cons:
  "active_channel_set ps (cmd # cmds) initial =
     active_channel_set ps cmds
       (case supplied_channel_set ps cmd of None \<Rightarrow> initial | Some fs \<Rightarrow> fs)"
  by (auto simp add: active_channel_set_def find_append_cases split: option.splits)

lemma channel_commands_frequencies:
  "frequencies (channel_commands ps cmds m) = active_channel_set ps cmds (frequencies m)"
proof (induction cmds arbitrary: m)
  case Nil
  show ?case by (simp add: active_channel_set_def)
next
  case (Cons cmd cmds)
  have "frequencies (snd (wifi_recon_channel ps (fst cmd) (snd cmd) m)) =
     (case supplied_channel_set ps cmd of None \<Rightarrow> frequencies m | Some fs \<Rightarrow> fs)"
    using wifi_recon_channel_frequencies [of ps "fst cmd" "snd cmd" m] by simp
  then show ?case
    using Cons.IH [of "snd (wifi_recon_channel ps (fst cmd) (snd cmd) m)"]
    by (simp add: active_channel_set_Cons)
qed

text \<open>
  Claim C3, as the code has it. After any sequence of \<open>wifi.recon.channel\<close> commands
  the channel set of the module is the one of the most recent command that was not
  refused (its channels converted to frequencies, or the supported frequencies of the
  interface if it supplied none), and the initial one if every command was refused. A
  command is refused when an item is not a number or not a valid channel, and also
  when it supplies no channel and the query for the supported frequencies fails; a
  refused command returns an error and leaves the whole module as it was. An accepted
  command replaces the channel set and nothing else.
\<close>

theorem channel_set_most_recent_accepted:
  shows "frequencies (channel_commands ps cmds m) = active_channel_set ps cmds (frequencies m)
       \<and> (supplied_channel_set ps (pf, arg) = None \<longrightarrow>
            (\<exists>e. wifi_recon_channel ps pf arg m = (Completed (Some e), m)))
       \<and> (arg \<noteq> ''clear'' \<and> \<not> list_all (valid_item ps) (Comma ps arg) \<longrightarrow>
            (\<exists>e. wifi_recon_channel ps pf arg m = (Completed (Some e), m)))
       \<and> (\<forall>fs. supplied_channel_set ps (pf, arg) = Some fs \<longrightarrow>
            snd (wifi_recon_channel ps pf arg m) = m\<lparr>frequencies := fs\<rparr>
            \<and> (\<forall>e. fst (wifi_recon_channel ps pf arg m) \<noteq> Completed (Some e)))"
proof -
  have "arg \<noteq> ''clear'' \<and> \<not> list_all (valid_item ps) (Comma ps arg)
      \<longrightarrow> supplied_channel_set ps (pf, arg) = None"
    by (auto simp add: supplied_channel_set_def)
  then show ?thesis
    using channel_commands_frequencies [of ps cmds m]
      wifi_recon_channel_refused [of ps pf arg m]
      wifi_recon_channel_accepted [of ps pf arg _ m]
    by auto
qed

lemma example_items:
  "Comma example_parsers ''1,6'' = [''1'', ''6'']"
  "Comma example_parsers ''1,200'' = [''1'', ''200'']"
  "Atoi example_parsers ''1'' = (1, None)"
  "Atoi example_parsers ''6'' = (6, None)"
  "Atoi example_parsers ''200'' = (200, None)"
  by (simp_all add: example_parsers_def example_Atoi_def)

lemma example_supplied:
  "supplied_channel_set example_parsers (example_platform, ''1,6'') = Some [2412, 2437]"
  "supplied_channel_set example_parsers (example_platform, ''1,200'') = None"
  "supplied_channel_set example_parsers (example_platform, ''clear'') = Some [2412, 2437, 2462]"
  "supplied_channel_set example_parsers (broken_platform, ''clear'') = None"
  by (simp_all add: supplied_channel_set_def valid_item_def example_items)
     (simp_all add: example_parsers_def example_platform_def broken_platform_def)

theorem channel_set_most_recent_accepted_witness:
  "frequencies (channel_commands example_parsers
       [(example_platform, ''clear''), (example_platform, ''1,6''), (example_platform, ''1,200'')]
       NewWiFiModule) = [2412, 2437]
   \<and> supplied_channel_set example_parsers (example_platform, ''1,200'') = None
   \<and> ''1,200'' \<noteq> ''clear''
   \<and> \<not> list_all (valid_item example_parsers) (Comma example_parsers ''1,200'')
   \<and> (\<exists>e. wifi_recon_channel example_parsers example_platform ''1,200'' NewWiFiModule
            = (Completed (Some e), NewWiFiModule))
   \<and> supplied_channel_set example_parsers (example_platform, ''1,6'') = Some [2412, 2437]
   \<and> snd (wifi_recon_channel example_parsers example_platform ''1,6'' NewWiFiModule)
       = NewWiFiModule\<lparr>frequencies := [2412, 2437]\<rparr>"
proof -
  have invalid: "\<not> list_all (valid_item example_parsers) (Comma example_parsers ''1,200'')"
    by (simp add: valid_item_def example_items) (simp add: example_parsers_def)
  have active: "active_channel_set example_parsers
       [(example_platform, ''clear''), (example_platform, ''1,6''), (example_platform, ''1,200'')]
       (frequencies NewWiFiModule) = [2412, 2437]"
    by (simp add: active_channel_set_Cons example_supplied active_channel_set_def)
  from channel_set_most_recent_accepted [of example_parsers
      "[(example_platform, ''clear''), (example_platform, ''1,6''), (example_platform, ''1,200'')]"
      NewWiFiModule example_platform "''1,200''"]
    channel_set_most_recent_accepted [of example_parsers "[]" NewWiFiModule
      example_platform "''1,6''"]
    invalid active
  show ?thesis by (simp add: example_supplied)
qed

text \<open>
  Claim C3 as stated fails: after channels 1 and 6 were set, a \<open>clear\<close> command whose
  query for the supported frequencies fails returns that error and leaves channels 1
  and 6 active, although the most recent command supplied no channel and held no
  invalid channel number.
\<close>

theorem channel_clear_keeps_set_on_query_failure:
  "frequencies (channel_commands example_parsers
       [(example_platform, ''1,6''), (broken_platform, ''clear'')] NewWiFiModule) = [2412, 2437]
   \<and> fst (wifi_recon_channel example_parsers broken_platform ''clear''
            (NewWiFiModule\<lparr>frequencies := [2412, 2437]\<rparr>))
       = Completed (Some (Failure ''no such device''))
   \<and> fst (GetSupportedFrequencies broken_platform) = []"
proof -
  have "frequencies (channel_commands example_parsers
       [(example_platform, ''1,6''), (broken_platform, ''clear'')] NewWiFiModule) = [2412, 2437]"
    by (subst channel_commands_frequencies)
       (simp add: active_channel_set_Cons example_supplied active_channel_set_def
          NewWiFiModule_def)
  moreover have "fst (wifi_recon_channel example_parsers broken_platform ''clear''
            (NewWiFiModule\<lparr>frequencies := [2412, 2437]\<rparr>))
       = Completed (Some (Failure ''no such device''))"
    by (simp add: wifi_recon_channel_def broken_platform_def example_platform_def)
  moreover have "fst (GetSupportedFrequencies broken_platform) = []"
    by (simp add: broken_platform_def example_platform_def)
  ultimately show ?thesis by blast
qed

text \<open>
  Claim C4, as the code has it. After the filter was set to a known access point, the
  clear command removes the filter (\<open>ap\<close> is nil, \<open>stickChan\<close> is 0) and replaces the
  channel set by what the query for the supported frequencies of the interface
  returns, whatever channel set was configured before; nothing else changes, and with
  the scheduler running the command returns the error of the query, if any.
\<close>

theorem filter_set_then_clear:
  assumes "wifi_recon_MAC ps arg m = (Completed None, m1)"
  shows "snd (wifi_recon_clear pf m1)
           = m\<lparr>ap := None, stickChan := 0, frequencies := fst (GetSupportedFrequencies pf)\<rparr>
       \<and> (hopperTask m \<longrightarrow> fst (wifi_recon_clear pf m1)
             = Completed (map_option Failure (snd (GetSupportedFrequencies pf))))
       \<and> (\<exists>station. WiFi m (fst (ParseMAC ps arg)) = Some station
             \<and> m1 = m\<lparr>ap := Some (fst (ParseMAC ps arg)), stickChan := Channel station\<rparr>)"
proof -
  from assms obtain station where st: "WiFi m (fst (ParseMAC ps arg)) = Some station"
    and m1: "m1 = m\<lparr>ap := Some (fst (ParseMAC ps arg)), stickChan := Channel station\<rparr>"
    by (auto simp add: wifi_recon_MAC_def split: option.splits)
  then show ?thesis
    by (simp add: wifi_recon_clear_def send_hopChanges_def Let_def)
qed

theorem filter_set_then_clear_witness:
  "wifi_recon_MAC example_parsers ''aa:aa:aa:aa:aa:aa'' example_module
     = (Completed None, example_module\<lparr>ap := Some ''aa:aa:aa:aa:aa:aa'', stickChan := 6\<rparr>)
   \<and> snd (wifi_recon_clear example_platform
            (example_module\<lparr>ap := Some ''aa:aa:aa:aa:aa:aa'', stickChan := 6\<rparr>))
       = example_module\<lparr>ap := None, stickChan := 0, frequencies := [2412, 2437, 2462]\<rparr>
   \<and> hopperTask example_module
   \<and> fst (wifi_recon_clear example_platform
            (example_module\<lparr>ap := Some ''aa:aa:aa:aa:aa:aa'', stickChan := 6\<rparr>))
       = Completed None"
proof -
  have set_filter: "wifi_recon_MAC example_parsers ''aa:aa:aa:aa:aa:aa'' example_module
     = (Completed None, example_module\<lparr>ap := Some ''aa:aa:aa:aa:aa:aa'', stickChan := 6\<rparr>)"
    by (simp add: wifi_recon_MAC_def example_parsers_def example_module_def example_ap_def)
  have q: "GetSupportedFrequencies example_platform = ([2412, 2437, 2462], None)"
    by (simp add: example_platform_def)
  have h: "hopperTask example_module" by (simp add: example_module_def)
  from filter_set_then_clear [OF set_filter, of example_platform] set_filter q h
  show ?thesis by simp
qed

text \<open>
  Claim C4 as stated fails: with the channel set configured to the frequencies of
  channels 1 and 6, setting the filter and clearing it leaves the module hopping over
  all three frequencies the interface supports.
\<close>

theorem clear_filter_resets_channel_set:
  "frequencies example_module = [2412, 2437]
   \<and> fst (wifi_recon_MAC example_parsers ''aa:aa:aa:aa:aa:aa'' example_module) = Completed None
   \<and> fst (wifi_recon_clear example_platform
            (snd (wifi_recon_MAC example_parsers ''aa:aa:aa:aa:aa:aa'' example_module)))
       = Completed None
   \<and> frequencies (snd (wifi_recon_clear example_platform
            (snd (wifi_recon_MAC example_parsers ''aa:aa:aa:aa:aa:aa'' example_module))))
       = [2412, 2437, 2462]
   \<and> stickChan (snd (wifi_recon_clear example_platform
            (snd (wifi_recon_MAC example_parsers ''aa:aa:aa:aa:aa:aa'' example_module)))) = 0"
  by (simp add: wifi_recon_MAC_def wifi_recon_clear_def send_hopChanges_def
      example_parsers_def example_platform_def example_module_def example_ap_def Let_def)

text \<open>
  The guard of the channel handler: it sends the signal only while the module is
  running, so it returns when the module is stopped. The clear handler has no guard.
\<close>

lemma channel_handler_returns_when_stopped:
  "\<not> Running m \<Longrightarrow> fst (wifi_recon_channel ps pf arg m) \<noteq> BlockedForever"
  by (auto simp add: wifi_recon_channel_def Running_def Let_def
      split: sum.splits option.splits if_splits)

lemma clear_handler_blocks_without_scheduler:
  "\<not> hopperTask m \<Longrightarrow> fst (wifi_recon_clear pf m) = BlockedForever"
  by (simp add: wifi_recon_clear_def send_hopChanges_def Let_def)

text \<open>
  Claim C5 does not hold for the code. On the module as built, with recon not running
  and no scheduler task, the clear-filter command sends on \<open>hopChanges\<close> all the same
  and never returns; the channel command at the same module returns. The guard of the
  channel command is the running flag of the module, so on a module started from a
  replay file, where no scheduler was started, the channel command blocks as well.
\<close>

theorem clear_filter_blocks_when_not_running:
  "\<not> Running NewWiFiModule \<and> \<not> hopperTask NewWiFiModule
   \<and> fst (wifi_recon_clear example_platform NewWiFiModule) = BlockedForever
   \<and> fst (wifi_recon_channel example_parsers example_platform ''clear'' NewWiFiModule)
       = Completed None
   \<and> fst (Start replay_platform NewWiFiModule) = None
   \<and> \<not> hopperTask (fst (snd (Start replay_platform NewWiFiModule)))
   \<and> fst (wifi_recon_channel example_parsers example_platform ''clear''
            (fst (snd (Start replay_platform NewWiFiModule)))) = BlockedForever"
proof -
  have s: "Start replay_platform NewWiFiModule =
     (None, NewWiFiModule\<lparr>Started := True, handle := Some 7, source := ''capture.pcap'',
        pktSourceChan := Some [], shakesFile := ''/root/hs.pcap'', reads := 1,
        prunerTask := True, captureTask := True\<rparr>, [CallOpenOffline])"
    by (simp add: Start_result Configure_def configure_params_def configure_handle_def
      configure_hopping_def deferred_def replay_platform_def example_platform_def
      NewWiFiModule_def Let_def)
  show ?thesis
    by (simp add: s)
       (simp add: wifi_recon_clear_def wifi_recon_channel_def send_hopChanges_def Running_def
         example_platform_def NewWiFiModule_def Let_def)
qed

end
